theory Spec2Isabelle
  imports Main "HOL-Library.Char_ord" "HOL-Library.List_Lexorder"
begin

section \<open>Values exchanged on the wire\<close>

text \<open>
  Messages are JSON. Python decodes them into None, bool, int, str, list and dict; the
  handlers test them for truthiness and call \<open>.get\<close> on those that are dicts.
\<close>

datatype json =
    JNull
  | JBool bool
  | JNum int
  | JStr string
  | JArr "json list"
  | JObj "(string \<times> json) list"

text \<open>Python truthiness: \<open>if error:\<close> is false for None, False, 0, the empty string,
  the empty list and the empty dict.\<close>

fun truthy :: "json \<Rightarrow> bool" where
  "truthy JNull = False"
| "truthy (JBool b) = b"
| "truthy (JNum n) = (n \<noteq> 0)"
| "truthy (JStr s) = (s \<noteq> [])"
| "truthy (JArr xs) = (xs \<noteq> [])"
| "truthy (JObj kvs) = (kvs \<noteq> [])"

text \<open>Python can hash None, booleans, numbers and strings; a list or a dict as a
  dictionary key raises \<open>TypeError\<close>.\<close>

fun hashable :: "json \<Rightarrow> bool" where
  "hashable (JArr xs) = False"
| "hashable (JObj kvs) = False"
| "hashable v = True"

section \<open>The mesh hub: \<open>src/app/mcp/mesh_hub.py\<close>\<close>

subsection \<open>Data structures\<close>

text \<open>
  \<open>MeshNode\<close>. Of the \<open>websocket\<close> object the hub reads only the flag \<open>closed\<close>;
  \<open>datetime\<close> values are seconds on the hub's clock.
\<close>

record mesh_node =
  session_id :: string
  machine_id :: string
  ws_closed :: bool
  tier :: string
  hostname :: string
  platform :: string
  user_id :: string
  tools :: "string list"
  capabilities :: "string list"
  connected_at :: int
  last_ping :: int
  request_count :: int

text \<open>
  \<open>PendingRequest\<close>. The \<open>asyncio.Future\<close> it refers to is an object shared with the
  coroutine that awaits it; the model keeps the futures in a store of their own, addressed
  by the request id they were created for, so that a future outlives its table entry.
  \<open>timeout\<close> is in whole seconds (the default is 120.0).
\<close>

record pending_request =
  request_id :: string
  source_node :: string
  target_node :: string
  created_at :: int
  timeout :: nat

text \<open>The argument of \<open>Exception(error.get("message", str(error)))\<close>: the value
  under \<open>message\<close>, or the text of the whole error object.\<close>

datatype exc_arg = Message json | StrOf json

datatype future = FPending | FResult json | FException exc_arg | FCancelled

datatype py_exception =
  Exception exc_arg | AttributeError | KeyError | InvalidStateError | TypeError

text \<open>The warnings and errors that the hub logs, each with the value it prints:
  "No pending request for: ...", "Failed to send to ...: ..." and "Connection error: ...".\<close>

datatype log_entry = NoPendingRequest json | FailedToSend string | ConnectionError py_exception

text \<open>
  \<open>MeshHub\<close>. \<open>tool_providers\<close> is a \<open>defaultdict(list)\<close>: a map whose missing keys
  are created empty when indexed. \<open>stats\<close> is flattened into its three counters.
  \<open>log\<close> collects the warnings and errors passed to the logger.
\<close>

record hub =
  nodes :: "string \<rightharpoonup> mesh_node"
  pending_requests :: "string \<rightharpoonup> pending_request"
  request_counter :: nat
  tool_providers :: "string \<rightharpoonup> string list"
  total_connections :: nat
  total_messages :: nat
  total_tool_calls :: nat
  futures :: "string \<rightharpoonup> future"
  log :: "log_entry list"

definition empty_hub :: hub where
  "empty_hub = \<lparr> nodes = Map.empty, pending_requests = Map.empty, request_counter = 0,
     tool_providers = Map.empty, total_connections = 0, total_messages = 0,
     total_tool_calls = 0, futures = Map.empty, log = [] \<rparr>"

subsection \<open>Tool management\<close>

text \<open>\<open>self.tool_providers.get(tool_name, [])\<close>: a read that creates no entry.\<close>

definition providers_of :: "hub \<Rightarrow> string \<Rightarrow> string list" where
  "providers_of h tool_name = (case tool_providers h tool_name of None \<Rightarrow> [] | Some ps \<Rightarrow> ps)"

text \<open>\<open>p in self.nodes and not self.nodes[p].websocket.closed\<close>\<close>

definition is_open :: "hub \<Rightarrow> string \<Rightarrow> bool" where
  "is_open h p = (case nodes h p of None \<Rightarrow> False | Some n \<Rightarrow> \<not> ws_closed n)"

text \<open>\<open>self.nodes[p].request_count\<close>, read only for \<open>p\<close> in the table.\<close>

definition count_of :: "hub \<Rightarrow> string \<Rightarrow> int" where
  "count_of h p = (case nodes h p of None \<Rightarrow> 0 | Some n \<Rightarrow> request_count n)"

text \<open>
  \<open>find_tool_provider\<close>: filter the providers to the connected ones, take the minimum
  request count, return the first connected provider that has it. The loop always returns
  (the minimum is attained); the source's fall-through \<open>return connected[0]\<close> is kept.
\<close>

definition find_tool_provider :: "hub \<Rightarrow> string \<Rightarrow> string option" where
  "find_tool_provider h tool_name =
     (let providers = providers_of h tool_name;
          connected = filter (is_open h) providers
      in if connected = [] then None
         else let min_requests = min_list (map (count_of h) connected)
              in (case find (\<lambda>p. count_of h p = min_requests) connected of
                    Some p \<Rightarrow> Some p
                  | None \<Rightarrow> Some (hd connected)))"

subsection \<open>Node management\<close>

text \<open>
  The loops \<open>for tool in node.tools: if session_id not in self.tool_providers[tool]:
  self.tool_providers[tool].append(session_id)\<close> of \<open>register_node\<close> and of the
  \<open>tools/list\<close> branch, and the removing loop of \<open>unregister_node\<close>. Indexing the
  \<open>defaultdict\<close> creates the key.
\<close>

definition add_provider :: "string \<Rightarrow> (string \<rightharpoonup> string list) \<Rightarrow> string \<Rightarrow> (string \<rightharpoonup> string list)" where
  "add_provider sid tp tool =
     (let ps = (case tp tool of None \<Rightarrow> [] | Some ps \<Rightarrow> ps)
      in if sid \<notin> set ps then tp(tool \<mapsto> ps @ [sid]) else tp(tool \<mapsto> ps))"

definition remove_provider :: "string \<Rightarrow> (string \<rightharpoonup> string list) \<Rightarrow> string \<Rightarrow> (string \<rightharpoonup> string list)" where
  "remove_provider sid tp tool =
     (let ps = (case tp tool of None \<Rightarrow> [] | Some ps \<Rightarrow> ps)
      in if sid \<in> set ps then tp(tool \<mapsto> remove1 sid ps) else tp(tool \<mapsto> ps))"

text \<open>The \<open>params\<close> of \<open>node/register\<close>, after the defaults of \<open>params.get\<close>; a
  missing \<open>session_id\<close> has been replaced by the generated one.\<close>

record register_params =
  p_session_id :: string
  p_machine_id :: string
  p_tier :: string
  p_hostname :: string
  p_platform :: string
  p_user_id :: string
  p_tools :: "string list"
  p_capabilities :: "string list"

text \<open>
  \<open>register_node\<close>. On a reconnect the old websocket is closed and the old
  \<open>MeshNode\<close> object is replaced by a new one in the table; the new object starts with
  \<open>request_count = 0\<close> and the open websocket of the new connection.
\<close>

definition register_node :: "hub \<Rightarrow> register_params \<Rightarrow> int \<Rightarrow> mesh_node \<times> hub" where
  "register_node h params now =
     (let sid = p_session_id params;
          node = \<lparr> session_id = sid, machine_id = p_machine_id params, ws_closed = False,
                   tier = p_tier params, hostname = p_hostname params,
                   platform = p_platform params, user_id = p_user_id params,
                   tools = p_tools params, capabilities = p_capabilities params,
                   connected_at = now, last_ping = now, request_count = 0 \<rparr>
      in (node, h\<lparr> nodes := (nodes h)(sid \<mapsto> node),
                    total_connections := total_connections h + 1,
                    tool_providers := foldl (add_provider sid) (tool_providers h) (tools node) \<rparr>))"

definition unregister_node :: "hub \<Rightarrow> string \<Rightarrow> hub" where
  "unregister_node h sid =
     (case nodes h sid of
        None \<Rightarrow> h
      | Some node \<Rightarrow>
          h\<lparr> nodes := (nodes h)(sid := None),
             tool_providers := foldl (remove_provider sid) (tool_providers h) (tools node) \<rparr>)"

subsection \<open>Message routing\<close>

text \<open>
  \<open>send_to_node\<close>. The message leaves the hub; the model keeps what the hub observes:
  whether \<open>send_json\<close> returned (\<open>io_ok\<close>) or raised, which is caught and logged.
\<close>

definition send_to_node :: "hub \<Rightarrow> string \<Rightarrow> bool \<Rightarrow> bool \<times> hub" where
  "send_to_node h sid io_ok =
     (case nodes h sid of
        None \<Rightarrow> (False, h)
      | Some node \<Rightarrow>
          if ws_closed node then (False, h)
          else if io_ok then (True, h\<lparr> total_messages := total_messages h + 1 \<rparr>)
          else (False, h\<lparr> log := log h @ [FailedToSend sid] \<rparr>))"

subsection \<open>Tool call routing\<close>

text \<open>Python's \<open>str\<close> of a natural number, for \<open>f"hub_{self._request_counter}"\<close>.\<close>

definition digit_char :: "nat \<Rightarrow> char" where
  "digit_char d = ''0123456789'' ! d"

function str_nat :: "nat \<Rightarrow> string" where
  "str_nat n = (if n < 10 then [digit_char n] else str_nat (n div 10) @ [digit_char (n mod 10)])"
  by pat_completeness auto
termination
  by (relation "measure (\<lambda>n. n)") auto

declare str_nat.simps [simp del]

text \<open>\<open>future.set_result\<close> and \<open>future.set_exception\<close>: a future that is already done
  raises \<open>InvalidStateError\<close>.\<close>

definition set_result :: "hub \<Rightarrow> string \<Rightarrow> json \<Rightarrow> py_exception option \<times> hub" where
  "set_result h fid v =
     (case futures h fid of
        Some FPending \<Rightarrow> (None, h\<lparr> futures := (futures h)(fid \<mapsto> FResult v) \<rparr>)
      | _ \<Rightarrow> (Some InvalidStateError, h))"

definition set_exception :: "hub \<Rightarrow> string \<Rightarrow> exc_arg \<Rightarrow> py_exception option \<times> hub" where
  "set_exception h fid a =
     (case futures h fid of
        Some FPending \<Rightarrow> (None, h\<lparr> futures := (futures h)(fid \<mapsto> FException a) \<rparr>)
      | _ \<Rightarrow> (Some InvalidStateError, h))"

text \<open>
  \<open>handle_response\<close>. \<open>request_id\<close> is whatever \<open>data.get("id")\<close> gave: any JSON
  value, or None. \<open>self.pending_requests.pop(request_id, None)\<close> comes first: on an
  empty table it returns the default; otherwise it hashes the key, which raises
  \<open>TypeError\<close> for a list or a dict; a key that is no string equals none of the
  table's keys. A missing entry is logged and the call returns. Otherwise the entry is
  popped (\<open>resolve_pending\<close> is the rest of the function), a truthy
  \<open>error\<close> must be a dict for \<open>error.get\<close> to work (anything else raises
  \<open>AttributeError\<close>, after the pop), and a falsy one resolves the future with
  \<open>result\<close>. The first component is the exception the call raises, if any.
\<close>

definition resolve_pending ::
  "hub \<Rightarrow> string \<Rightarrow> pending_request \<Rightarrow> json \<Rightarrow> json \<Rightarrow> py_exception option \<times> hub" where
  "resolve_pending h rid pending result error =
     (let h1 = h\<lparr> pending_requests := (pending_requests h)(rid := None) \<rparr>
      in if truthy error then
           (case error of
              JObj kvs \<Rightarrow>
                set_exception h1 (request_id pending)
                  (case map_of kvs ''message'' of Some m \<Rightarrow> Message m | None \<Rightarrow> StrOf error)
            | _ \<Rightarrow> (Some AttributeError, h1))
         else set_result h1 (request_id pending) result)"

definition handle_response :: "hub \<Rightarrow> json \<Rightarrow> json \<Rightarrow> json \<Rightarrow> py_exception option \<times> hub" where
  "handle_response h req_id result error =
     (if pending_requests h \<noteq> Map.empty \<and> \<not> hashable req_id then (Some TypeError, h)
      else
        (case req_id of
           JStr rid \<Rightarrow>
             (case pending_requests h rid of
                None \<Rightarrow> (None, h\<lparr> log := log h @ [NoPendingRequest req_id] \<rparr>)
              | Some pending \<Rightarrow> resolve_pending h rid pending result error)
         | _ \<Rightarrow> (None, h\<lparr> log := log h @ [NoPendingRequest req_id] \<rparr>)))"

text \<open>
  What \<open>handle_websocket\<close> does when handling a message raises: the exception ends
  the connection's loop, is logged, and the \<open>finally\<close> block unregisters the
  connection's node. \<open>receive_response\<close> is the loop's step for a response message.
\<close>

definition connection_failed :: "hub \<Rightarrow> string option \<Rightarrow> py_exception \<Rightarrow> hub" where
  "connection_failed h node e =
     (let h1 = h\<lparr> log := log h @ [ConnectionError e] \<rparr>
      in case node of None \<Rightarrow> h1 | Some sid \<Rightarrow> unregister_node h1 sid)"

definition receive_response :: "hub \<Rightarrow> string option \<Rightarrow> json \<Rightarrow> json \<Rightarrow> json \<Rightarrow> hub" where
  "receive_response h node req_id result error =
     (case handle_response h req_id result error of
        (None, h1) \<Rightarrow> h1
      | (Some e, h1) \<Rightarrow> connection_failed h1 node e)"

text \<open>The "Find target node" block of \<open>route_tool_call\<close>. \<open>if target_session:\<close> is
  false for None and for the empty string.\<close>

definition choose_provider :: "hub \<Rightarrow> string \<Rightarrow> string option \<Rightarrow> string option" where
  "choose_provider h tool_name target_session =
     (case target_session of
        None \<Rightarrow> find_tool_provider h tool_name
      | Some t \<Rightarrow>
          if t \<noteq> [] then (if t \<in> dom (nodes h) then Some t else None)
          else find_tool_provider h tool_name)"

text \<open>
  The synchronous block of \<open>route_tool_call\<close> between the choice of the provider and the
  send: count the request on the provider, reserve the request id, create the future and
  install the pending request.
\<close>

definition install_call :: "hub \<Rightarrow> string \<Rightarrow> mesh_node \<Rightarrow> string option \<Rightarrow> nat \<Rightarrow> int \<Rightarrow> string \<times> hub" where
  "install_call h provider node source_session tmo now =
     (let h1 = h\<lparr> nodes := (nodes h)(provider \<mapsto> node\<lparr> request_count := request_count node + 1 \<rparr>),
                  total_tool_calls := total_tool_calls h + 1 \<rparr>;
          h2 = h1\<lparr> request_counter := request_counter h1 + 1 \<rparr>;
          rid = ''hub_'' @ str_nat (request_counter h2);
          src = (case source_session of None \<Rightarrow> ''hub'' | Some s \<Rightarrow> if s \<noteq> [] then s else ''hub'')
      in (rid, h2\<lparr> futures := (futures h2)(rid \<mapsto> FPending),
                   pending_requests := (pending_requests h2)(rid \<mapsto>
                     \<lparr> request_id = rid, source_node = src, target_node = provider,
                       created_at = now, timeout = tmo \<rparr>) \<rparr>))"

text \<open>What reaches the hub from the provider before the deadline: nothing, or a response
  to this request with its \<open>result\<close> and \<open>error\<close> (None when the key is missing).\<close>

datatype reply = NoReply | Reply json json

text \<open>The value of the coroutine: the awaited result, an \<open>{"error": ...}\<close> dict, or an
  exception that propagates to the caller.\<close>

datatype call_result = Returned json | ErrorDict string | Raised py_exception

text \<open>
  \<open>asyncio.wait_for(future, timeout)\<close> and the \<open>except asyncio.TimeoutError\<close> branch.
  A response that arrives in time comes over the provider's connection, whose loop passes
  it to \<open>handle_response\<close>; if that raises, the loop ends and the provider is
  unregistered. If the future is then done, awaiting it returns its result or raises its
  exception; otherwise the deadline passes, \<open>wait_for\<close> cancels the future, and the
  entry is popped. A float of whole seconds prints as \<open>120.0\<close>.
\<close>

definition wait_for :: "hub \<Rightarrow> string \<Rightarrow> string \<Rightarrow> nat \<Rightarrow> reply \<Rightarrow> call_result \<times> hub" where
  "wait_for h provider rid tmo rep =
     (let h1 = (case rep of
                  NoReply \<Rightarrow> h
                | Reply result error \<Rightarrow> receive_response h (Some provider) (JStr rid) result error)
      in case futures h1 rid of
           Some (FResult v) \<Rightarrow> (Returned v, h1)
         | Some (FException a) \<Rightarrow> (Raised (Exception a), h1)
         | _ \<Rightarrow> (ErrorDict (''Request timeout after '' @ str_nat tmo @ ''.0s''),
                 h1\<lparr> futures := (futures h1)(rid \<mapsto> FCancelled),
                     pending_requests := (pending_requests h1)(rid := None) \<rparr>))"

text \<open>
  \<open>route_tool_call\<close>. \<open>send_ok\<close> and \<open>rep\<close> are what the environment does with this
  call: whether the send succeeds, and what comes back before the deadline.
\<close>

definition route_tool_call ::
  "hub \<Rightarrow> string \<Rightarrow> string option \<Rightarrow> string option \<Rightarrow> nat \<Rightarrow> int \<Rightarrow> bool \<Rightarrow> reply \<Rightarrow> call_result \<times> hub" where
  "route_tool_call h tool_name source_session target_session tmo now send_ok rep =
     (case choose_provider h tool_name target_session of
        None \<Rightarrow> (ErrorDict (''No provider found for tool: '' @ tool_name), h)
      | Some provider \<Rightarrow>
          if provider = [] then (ErrorDict (''No provider found for tool: '' @ tool_name), h)
          else
            (case nodes h provider of
               None \<Rightarrow> (Raised KeyError, h)
             | Some node \<Rightarrow>
                 (let (rid, h1) = install_call h provider node source_session tmo now;
                      (success, h2) = send_to_node h1 provider send_ok
                  in if \<not> success then
                       (ErrorDict (''Failed to send to node: '' @ provider),
                        h2\<lparr> pending_requests := (pending_requests h2)(rid := None) \<rparr>)
                     else wait_for h2 provider rid tmo rep)))"

subsection \<open>Messages from a registered node\<close>

text \<open>
  The \<open>ping\<close> and \<open>tools/list\<close> branches of \<open>_handle_message\<close>. \<open>node\<close> is the
  connection's \<open>MeshNode\<close>, named by its session id (None before registration); the
  object it names is the one in the table.
\<close>

definition handle_ping :: "hub \<Rightarrow> string option \<Rightarrow> int \<Rightarrow> hub" where
  "handle_ping h node now =
     (case node of
        None \<Rightarrow> h
      | Some sid \<Rightarrow>
          (case nodes h sid of
             None \<Rightarrow> h
           | Some n \<Rightarrow> h\<lparr> nodes := (nodes h)(sid \<mapsto> n\<lparr> last_ping := now \<rparr>) \<rparr>))"

definition handle_tools_list :: "hub \<Rightarrow> string option \<Rightarrow> string list \<Rightarrow> hub" where
  "handle_tools_list h node new_tools =
     (case node of
        None \<Rightarrow> h
      | Some sid \<Rightarrow>
          h\<lparr> nodes := (case nodes h sid of
                          None \<Rightarrow> nodes h
                        | Some n \<Rightarrow> (nodes h)(sid \<mapsto> n\<lparr> tools := new_tools \<rparr>)),
             tool_providers := foldl (add_provider sid) (tool_providers h) new_tools \<rparr>)"

section \<open>The federation vault: \<open>src/app/services/federation_vault.py\<close>\<close>

text \<open>\<open>FederationNode\<close>; timestamps are ISO strings. Its \<open>created_at\<close> is named
  \<open>registered_at\<close> here, apart from the field of the pending request.\<close>

record federation_node =
  node_id :: string
  token_hash :: string
  role :: string
  allowed_ips :: "string list"
  registered_at :: string
  last_seen :: "string option"
  active :: bool

text \<open>
  The tokens file. \<open>_save\<close> opens it for writing (which truncates it), dumps the node
  table with the time of the save, and sets its mode; any exception is logged and
  swallowed. The outcome of the I/O is an input of the model.
\<close>

datatype tokens_file = Missing | Partial | Saved "string \<rightharpoonup> federation_node" string

datatype io_outcome = IoOk | OpenFails | DumpFails | ChmodFails

record vault =
  vault_nodes :: "string \<rightharpoonup> federation_node"
  shared_secret :: "string option"
  tokens_file :: tokens_file

definition save :: "vault \<Rightarrow> string \<Rightarrow> io_outcome \<Rightarrow> vault" where
  "save v now io =
     (case io of
        IoOk \<Rightarrow> v\<lparr> tokens_file := Saved (vault_nodes v) now \<rparr>
      | OpenFails \<Rightarrow> v
      | DumpFails \<Rightarrow> v\<lparr> tokens_file := Partial \<rparr>
      | ChmodFails \<Rightarrow> v\<lparr> tokens_file := Saved (vault_nodes v) now \<rparr>)"

text \<open>
  \<open>register_node\<close>. \<open>token\<close> is the value of \<open>secrets.token_urlsafe(32)\<close> and
  \<open>sha256\<close> stands for \<open>hashlib.sha256(token.encode()).hexdigest()\<close>. There is no
  check that \<open>node_id\<close> is new. The name carries the prefix \<open>vault\<close> apart from the
  hub's \<open>register_node\<close>.
\<close>

definition vault_register_node ::
  "(string \<Rightarrow> string) \<Rightarrow> vault \<Rightarrow> string \<Rightarrow> string \<Rightarrow> string list option \<Rightarrow> string \<Rightarrow> string \<Rightarrow> io_outcome
   \<Rightarrow> string \<times> vault" where
  "vault_register_node sha256 v nid rl ips token now io =
     (let hash = sha256 token;
          node = \<lparr> node_id = nid, token_hash = hash, role = rl,
                   allowed_ips = (case ips of None \<Rightarrow> [] | Some l \<Rightarrow> l),
                   registered_at = now, last_seen = None, active = True \<rparr>
      in (token, save (v\<lparr> vault_nodes := (vault_nodes v)(nid \<mapsto> node) \<rparr>) now io))"

text \<open>
  \<open>verify_token\<close>. The IP restriction is checked only \<open>if node.allowed_ips and
  client_ip\<close>: a missing or empty \<open>client_ip\<close> skips it. \<open>hmac.compare_digest\<close>
  compares the two hex digests for equality.
\<close>

definition verify_token ::
  "(string \<Rightarrow> string) \<Rightarrow> vault \<Rightarrow> string \<Rightarrow> string \<Rightarrow> string option \<Rightarrow> string \<Rightarrow> io_outcome
   \<Rightarrow> bool \<times> vault" where
  "verify_token sha256 v nid token client_ip now io =
     (case vault_nodes v nid of
        None \<Rightarrow> (False, v)
      | Some node \<Rightarrow>
          if \<not> active node then (False, v)
          else if allowed_ips node \<noteq> [] \<and> client_ip \<noteq> None \<and> client_ip \<noteq> Some []
                  \<and> the client_ip \<notin> set (allowed_ips node) then (False, v)
          else if sha256 token \<noteq> token_hash node then (False, v)
          else (True, save (v\<lparr> vault_nodes := (vault_nodes v)(nid \<mapsto> node\<lparr> last_seen := Some now \<rparr>) \<rparr>)
                        now io))"

definition revoke_node :: "vault \<Rightarrow> string \<Rightarrow> string \<Rightarrow> io_outcome \<Rightarrow> bool \<times> vault" where
  "revoke_node v nid now io =
     (case vault_nodes v nid of
        None \<Rightarrow> (False, v)
      | Some node \<Rightarrow>
          (True, save (v\<lparr> vault_nodes := (vault_nodes v)(nid \<mapsto> node\<lparr> active := False \<rparr>) \<rparr>) now io))"

text \<open>
  The \<open>federation_register\<close> branch of \<open>handle_federation_tool\<close> in
  \<open>src/app/mcp/federation_tools.py\<close>: this caller refuses a node id that the vault
  already holds. It passes no \<open>allowed_ips\<close>.
\<close>

datatype tool_result = ToolError string | Registered string string string

definition federation_register ::
  "(string \<Rightarrow> string) \<Rightarrow> vault \<Rightarrow> string option \<Rightarrow> string \<Rightarrow> string \<Rightarrow> string \<Rightarrow> io_outcome
   \<Rightarrow> tool_result \<times> vault" where
  "federation_register sha256 v nid rl token now io =
     (case nid of
        None \<Rightarrow> (ToolError ''node_id required'', v)
      | Some n \<Rightarrow>
          if n = [] then (ToolError ''node_id required'', v)
          else if vault_nodes v n \<noteq> None then (ToolError (''Node '' @ n @ '' already registered''), v)
          else (let (tok, v') = vault_register_node sha256 v n rl None token now io
                in (Registered n rl tok, v')))"

definition empty_vault :: vault where
  "empty_vault = \<lparr> vault_nodes = Map.empty, shared_secret = None, tokens_file = Missing \<rparr>"

section \<open>Signed requests: \<open>src/app/services/server_federation.py\<close>\<close>

text \<open>
  The envelope \<open>{data, timestamp, signature}\<close>. The payload is opaque here; \<open>dumps\<close>
  stands for \<open>json.dumps(data, sort_keys=True)\<close>, \<open>hmac_hex\<close> for
  \<open>hmac.new(key, msg, sha256).hexdigest()\<close> and \<open>py_int\<close> for Python's \<open>int\<close> on
  the timestamp (None when it raises \<open>ValueError\<close>).
\<close>

record 'd signed_request =
  data :: 'd
  timestamp :: string
  signature :: string

text \<open>
  \<open>verify_signed_request\<close>. \<open>secret or FEDERATION_PSK\<close> falls back to the module's
  key \<open>psk\<close>; \<open>now\<close> is \<open>int(time.time())\<close>. Every exception is caught and gives
  None.
\<close>

definition verify_signed_request ::
  "(string \<Rightarrow> string \<Rightarrow> string) \<Rightarrow> ('d \<Rightarrow> string) \<Rightarrow> (string \<Rightarrow> int option) \<Rightarrow> string
   \<Rightarrow> 'd signed_request \<Rightarrow> string option \<Rightarrow> int \<Rightarrow> int \<Rightarrow> 'd option" where
  "verify_signed_request hmac_hex dumps py_int psk request secret max_age now =
     (let key = (case secret of None \<Rightarrow> psk | Some s \<Rightarrow> if s \<noteq> [] then s else psk)
      in case py_int (timestamp request) of
           None \<Rightarrow> None
         | Some ts \<Rightarrow>
             if \<bar>now - ts\<bar> > max_age then None
             else
               (let message = timestamp request @ '':'' @ dumps (data request);
                    expected = hmac_hex key message
                in if signature request = expected then Some (data request) else None))"

text \<open>\<open>create_signed_request\<close>, with \<open>str_int\<close> for \<open>str(int(time.time()))\<close>.\<close>

definition create_signed_request ::
  "(string \<Rightarrow> string \<Rightarrow> string) \<Rightarrow> ('d \<Rightarrow> string) \<Rightarrow> (int \<Rightarrow> string) \<Rightarrow> string
   \<Rightarrow> 'd \<Rightarrow> string option \<Rightarrow> int \<Rightarrow> 'd signed_request" where
  "create_signed_request hmac_hex dumps str_int psk d secret now =
     (let key = (case secret of None \<Rightarrow> psk | Some s \<Rightarrow> if s \<noteq> [] then s else psk);
          ts = str_int now;
          message = ts @ '':'' @ dumps d
      in \<lparr> data = d, timestamp = ts, signature = hmac_hex key message \<rparr>)"

section \<open>Gossip: \<open>src/app/mcp/mesh_node.py\<close>\<close>

text \<open>\<open>PeerInfo\<close>, and one element of the \<open>peers\<close> list of a \<open>peer/gossip\<close> message,
  each key of which may be missing.\<close>

record peer_info =
  peer_id :: string
  address :: string
  peer_tools :: "string list"
  peer_last_seen :: string

record gossip_record =
  g_peer_id :: "string option"
  g_address :: "string option"
  g_tools :: "string list option"
  g_last_seen :: "string option"

text \<open>The part of the peer-to-peer \<open>MeshNode\<close> that \<open>_handle_gossip\<close> touches: its own
  id, the keys of \<open>self.peers\<close>, and \<open>self._known_peers\<close>.\<close>

record mesh_peer_node =
  own_id :: string
  peers :: "string set"
  known_peers :: "string \<rightharpoonup> peer_info"

text \<open>The call \<open>PeerInfo(peer_id=pid, address=p.get("address", ""), tools=p.get("tools", []),
  last_seen=p.get("last_seen", datetime.now().isoformat()))\<close>.\<close>

definition peer_info_of :: "string \<Rightarrow> string \<Rightarrow> gossip_record \<Rightarrow> peer_info" where
  "peer_info_of now pid p =
     \<lparr> peer_id = pid,
       address = (case g_address p of None \<Rightarrow> [] | Some a \<Rightarrow> a),
       peer_tools = (case g_tools p of None \<Rightarrow> [] | Some ts \<Rightarrow> ts),
       peer_last_seen = (case g_last_seen p of None \<Rightarrow> now | Some t \<Rightarrow> t) \<rparr>"

text \<open>One iteration of the loop of \<open>_handle_gossip\<close>, on the pair of the known-peers
  table and the counter \<open>added\<close>: an admissible record overwrites the entry of its peer
  id with a new \<open>PeerInfo\<close>; \<open>now\<close> is the default for a missing \<open>last_seen\<close>.\<close>

definition gossip_step ::
  "string \<Rightarrow> string set \<Rightarrow> string \<Rightarrow> (string \<rightharpoonup> peer_info) \<times> nat \<Rightarrow> gossip_record
   \<Rightarrow> (string \<rightharpoonup> peer_info) \<times> nat" where
  "gossip_step self ps now acc p =
     (case g_peer_id p of
        None \<Rightarrow> acc
      | Some pid \<Rightarrow>
          if pid \<noteq> [] \<and> pid \<noteq> self \<and> pid \<notin> ps then
            ((fst acc)(pid \<mapsto> peer_info_of now pid p), snd acc + 1)
          else acc)"

text \<open>\<open>_handle_gossip\<close>: returns \<open>added\<close> and \<open>total_known\<close> with the new state.\<close>

definition handle_gossip ::
  "mesh_peer_node \<Rightarrow> gossip_record list \<Rightarrow> string \<Rightarrow> (nat \<times> nat) \<times> mesh_peer_node" where
  "handle_gossip n new_peers now =
     (let (known, added) = foldl (gossip_step (own_id n) (peers n) now) (known_peers n, 0) new_peers
      in ((added, card (dom known)), n\<lparr> known_peers := known \<rparr>))"

section \<open>Specification vocabulary and sample states\<close>

text \<open>The id that the next routed call will reserve.\<close>

definition next_request_id :: "hub \<Rightarrow> string" where
  "next_request_id h = ''hub_'' @ str_nat (request_counter h + 1)"

text \<open>Every key of the pending-call table was reserved from the counter.\<close>

definition hub_inv :: "hub \<Rightarrow> bool" where
  "hub_inv h \<longleftrightarrow>
     (\<forall>rid\<in>dom (pending_requests h). \<exists>k. k \<le> request_counter h \<and> rid = ''hub_'' @ str_nat k)"

definition timeout_text :: "nat \<Rightarrow> string" where
  "timeout_text tmo = ''Request timeout after '' @ str_nat tmo @ ''.0s''"

text \<open>What a response does to a pending future, and what the waiting call then yields.\<close>

definition response_future :: "json \<Rightarrow> json \<Rightarrow> future" where
  "response_future r e =
     (if truthy e then
        (case e of
           JObj kvs \<Rightarrow> FException (case map_of kvs ''message'' of Some m \<Rightarrow> Message m | None \<Rightarrow> StrOf e)
         | _ \<Rightarrow> FPending)
      else FResult r)"

definition response_result :: "nat \<Rightarrow> reply \<Rightarrow> call_result" where
  "response_result tmo rep =
     (case rep of
        NoReply \<Rightarrow> ErrorDict (timeout_text tmo)
      | Reply r e \<Rightarrow>
          if truthy e then
            (case e of
               JObj kvs \<Rightarrow> Raised (Exception (case map_of kvs ''message'' of Some m \<Rightarrow> Message m | None \<Rightarrow> StrOf e))
             | _ \<Rightarrow> ErrorDict (timeout_text tmo))
          else Returned r)"

text \<open>A response whose \<open>error\<close> is truthy but no dict: \<open>handle_response\<close> raises on
  it after the pop, and the connection it came over is closed.\<close>

definition malformed_error :: "reply \<Rightarrow> bool" where
  "malformed_error rep =
     (case rep of
        NoReply \<Rightarrow> False
      | Reply r e \<Rightarrow> truthy e \<and> (case e of JObj kvs \<Rightarrow> False | _ \<Rightarrow> True))"


text \<open>Reading a decimal numeral, the inverse of \<open>str_nat\<close>.\<close>

definition nat_of_str :: "string \<Rightarrow> nat" where
  "nat_of_str s = foldl (\<lambda>a c. 10 * a + (of_char c - 48)) 0 s"

text \<open>A hub whose \<open>last_ping\<close> fields have been rewritten by \<open>f\<close>.\<close>

definition with_last_ping :: "(mesh_node \<Rightarrow> int) \<Rightarrow> hub \<Rightarrow> hub" where
  "with_last_ping f h = h\<lparr> nodes := (\<lambda>p. map_option (\<lambda>n. n\<lparr> last_ping := f n \<rparr>) (nodes h p)) \<rparr>"

text \<open>Sample states. Three peers provide \<open>echo\<close> with request counts 2, 2 and 5; in
  \<open>busy_hub\<close> one call to P3 is outstanding.\<close>

definition sample_node :: "string \<Rightarrow> string list \<Rightarrow> int \<Rightarrow> mesh_node" where
  "sample_node sid ts c =
     \<lparr> session_id = sid, machine_id = [], ws_closed = False, tier = ''guest'', hostname = [],
       platform = [], user_id = [], tools = ts, capabilities = [], connected_at = 0,
       last_ping = 0, request_count = c \<rparr>"

definition echo_hub :: hub where
  "echo_hub = empty_hub
     \<lparr> nodes := [''P1'' \<mapsto> sample_node ''P1'' [''echo''] 2,
                  ''P2'' \<mapsto> sample_node ''P2'' [''echo''] 2,
                  ''P3'' \<mapsto> sample_node ''P3'' [''echo''] 5],
       tool_providers := [''echo'' \<mapsto> [''P1'', ''P2'', ''P3'']] \<rparr>"

definition busy_hub :: hub where
  "busy_hub = echo_hub
     \<lparr> pending_requests := [''hub_1'' \<mapsto>
          \<lparr> request_id = ''hub_1'', source_node = ''hub'', target_node = ''P3'',
            created_at = 0, timeout = 120 \<rparr>],
       request_counter := 1,
       futures := [''hub_1'' \<mapsto> FPending] \<rparr>"

definition sample_params :: "string \<Rightarrow> string list \<Rightarrow> register_params" where
  "sample_params sid ts =
     \<lparr> p_session_id = sid, p_machine_id = [], p_tier = ''guest'', p_hostname = [],
       p_platform = [], p_user_id = [], p_tools = ts, p_capabilities = [] \<rparr>"

text \<open>P4 registered at time 0 with \<open>echo\<close> and has sent no ping since.\<close>

definition silent_hub :: hub where
  "silent_hub = snd (register_node empty_hub (sample_params ''P4'' [''echo'']) 0)"

text \<open>n1 registered with \<open>echo\<close> and \<open>sum\<close>, then advertised \<open>echo\<close> alone.\<close>

definition two_tool_hub :: hub where
  "two_tool_hub = snd (register_node empty_hub (sample_params ''n1'' [''echo'', ''sum'']) 0)"

definition dropped_tool_hub :: hub where
  "dropped_tool_hub = handle_tools_list two_tool_hub (Some ''n1'') [''echo'']"

text \<open>The three peers again, P2 with its websocket closed.\<close>

definition half_open_hub :: hub where
  "half_open_hub = echo_hub
     \<lparr> nodes := (nodes echo_hub)(''P2'' \<mapsto> (sample_node ''P2'' [''echo''] 2)\<lparr> ws_closed := True \<rparr>) \<rparr>"

text \<open>Stand-ins for the library functions in worked examples: a digest, a keyed digest,
  and \<open>int\<close> on the plain decimal strings that \<open>str(int(time.time()))\<close> produces.\<close>

definition sample_digest :: "string \<Rightarrow> string" where
  "sample_digest s = ''digest('' @ s @ '')''"

definition sample_hmac :: "string \<Rightarrow> string \<Rightarrow> string" where
  "sample_hmac key msg = ''mac('' @ key @ '','' @ msg @ '')''"

definition int_of_digits :: "string \<Rightarrow> int option" where
  "int_of_digits s =
     (if s \<noteq> [] \<and> list_all (\<lambda>c. c \<in> set ''0123456789'') s then Some (int (nat_of_str s)) else None)"

text \<open>Sample vault states: nodeA registered with token \<open>T\<close> and one allowed
  address, and the same vault after nodeA was revoked.\<close>

definition restricted_vault :: vault where
  "restricted_vault =
     snd (vault_register_node sample_digest empty_vault ''nodeA'' ''node'' (Some [''10.0.0.5''])
            ''T'' ''2026-01-01T00:00:00'' IoOk)"

definition revoked_vault :: vault where
  "revoked_vault = snd (revoke_node restricted_vault ''nodeA'' ''2026-01-02T00:00:00'' IoOk)"

text \<open>Python's \<open>str\<close> of an integer, for worked examples of signed requests.\<close>

definition str_int :: "int \<Rightarrow> string" where
  "str_int i = (if i < 0 then ''-'' @ str_nat (nat (- i)) else str_nat (nat i))"

text \<open>A record passes the guard \<open>pid and pid != self.node_id and pid not in self.peers\<close>.\<close>

definition admissible :: "string \<Rightarrow> string set \<Rightarrow> gossip_record \<Rightarrow> bool" where
  "admissible self ps r =
     (case g_peer_id r of None \<Rightarrow> False | Some pid \<Rightarrow> pid \<noteq> [] \<and> pid \<noteq> self \<and> pid \<notin> ps)"

text \<open>A sample peer-to-peer node, connected to p1, and gossip records about a peer.\<close>

definition gossip_node :: mesh_peer_node where
  "gossip_node = \<lparr> own_id = ''me'', peers = {''p1''}, known_peers = Map.empty \<rparr>"

definition gossip_about :: "string \<Rightarrow> string option \<Rightarrow> gossip_record" where
  "gossip_about pid seen =
     \<lparr> g_peer_id = Some pid, g_address = Some ''10.0.0.9:44433'', g_tools = Some [''echo''],
       g_last_seen = seen \<rparr>"

section \<open>Provider selection\<close>

lemmas sample_defs = echo_hub_def busy_hub_def empty_hub_def sample_node_def sample_params_def
  silent_hub_def two_tool_hub_def dropped_tool_hub_def half_open_hub_def

lemmas hub_defs = find_tool_provider_def providers_of_def is_open_def count_of_def
  choose_provider_def register_node_def add_provider_def handle_tools_list_def Let_def

lemma min_list_le: "x \<in> set xs \<Longrightarrow> min_list xs \<le> (x::int)"
proof -
  assume x: "x \<in> set xs"
  then have "xs \<noteq> []" by auto
  then have "min_list xs = Min (set xs)" by (rule min_list_Min)
  with x show ?thesis by simp
qed

lemma min_list_mem: "xs \<noteq> [] \<Longrightarrow> min_list xs \<in> set (xs::int list)"
proof -
  assume ne: "xs \<noteq> []"
  then have "min_list xs = Min (set xs)" by (rule min_list_Min)
  moreover from ne have "Min (set xs) \<in> set xs" by (intro Min_in) simp_all
  ultimately show ?thesis by simp
qed

lemma find_first_split:
  "find P xs = Some r \<Longrightarrow> \<exists>pre post. xs = pre @ r # post \<and> P r \<and> (\<forall>q\<in>set pre. \<not> P q)"
proof (induction xs)
  case Nil
  then show ?case by simp
next
  case (Cons x xs)
  show ?case
  proof (cases "P x")
    case True
    with Cons.prems have "x = r" by simp
    with True have "x # xs = [] @ r # xs \<and> P r \<and> (\<forall>q\<in>set []. \<not> P q)" by simp
    then show ?thesis by blast
  next
    case False
    with Cons.prems have "find P xs = Some r" by simp
    from Cons.IH [OF this] obtain pre post
      where "xs = pre @ r # post" "P r" "\<forall>q\<in>set pre. \<not> P q" by blast
    with False have "x # xs = (x # pre) @ r # post \<and> P r \<and> (\<forall>q\<in>set (x # pre). \<not> P q)"
      by simp
    then show ?thesis by blast
  qed
qed

lemma filter_split_back:
  "filter P xs = pre @ r # post \<Longrightarrow>
   \<exists>pre' post'. xs = pre' @ r # post' \<and> filter P pre' = pre \<and> filter P post' = post"
proof (induction xs arbitrary: pre)
  case Nil
  then show ?case by simp
next
  case (Cons x xs)
  show ?case
  proof (cases "P x")
    case False
    with Cons.prems have "filter P xs = pre @ r # post" by simp
    from Cons.IH [OF this] obtain pre' post'
      where "xs = pre' @ r # post'" "filter P pre' = pre" "filter P post' = post" by blast
    with False have "x # xs = (x # pre') @ r # post' \<and> filter P (x # pre') = pre
        \<and> filter P post' = post" by simp
    then show ?thesis by blast
  next
    case True
    show ?thesis
    proof (cases pre)
      case Nil
      with True Cons.prems have "x = r" "filter P xs = post" by simp_all
      then have "x # xs = [] @ r # xs \<and> filter P [] = pre \<and> filter P xs = post"
        using Nil by simp
      then show ?thesis by blast
    next
      case (Cons y ys)
      with True Cons.prems have xy: "x = y" and "filter P xs = ys @ r # post" by simp_all
      from Cons.IH [OF this(2)] obtain pre' post'
        where "xs = pre' @ r # post'" "filter P pre' = ys" "filter P post' = post" by blast
      with True xy Cons have "x # xs = (x # pre') @ r # post' \<and> filter P (x # pre') = pre
          \<and> filter P post' = post" by simp
      then show ?thesis by blast
    qed
  qed
qed

lemma find_tool_provider_None:
  "find_tool_provider h t = None \<longleftrightarrow> (\<forall>p\<in>set (providers_of h t). \<not> is_open h p)"
proof -
  let ?c = "filter (is_open h) (providers_of h t)"
  have "find_tool_provider h t = None \<longleftrightarrow> ?c = []"
    by (simp add: find_tool_provider_def Let_def split: option.splits)
  also have "\<dots> \<longleftrightarrow> (\<forall>p\<in>set (providers_of h t). \<not> is_open h p)"
    by (simp add: filter_empty_conv)
  finally show ?thesis .
qed

lemma find_tool_provider_Some:
  assumes "find_tool_provider h t = Some r"
  shows "\<exists>pre post. providers_of h t = pre @ r # post \<and> is_open h r
           \<and> (\<forall>q\<in>set (providers_of h t). is_open h q \<longrightarrow> count_of h r \<le> count_of h q)
           \<and> (\<forall>q\<in>set pre. is_open h q \<longrightarrow> count_of h r < count_of h q)"
proof -
  let ?ps = "providers_of h t"
  let ?c = "filter (is_open h) ?ps"
  let ?m = "min_list (map (count_of h) ?c)"
  from assms have ne: "?c \<noteq> []"
    by (auto simp: find_tool_provider_def Let_def split: if_splits)
  then have "?m \<in> set (map (count_of h) ?c)" by (intro min_list_mem) simp
  then obtain w where w: "w \<in> set ?c" "count_of h w = ?m" by auto
  then have "find (\<lambda>p. count_of h p = ?m) ?c \<noteq> None"
    by (auto simp: find_None_iff)
  with assms ne have fr: "find (\<lambda>p. count_of h p = ?m) ?c = Some r"
    by (auto simp: find_tool_provider_def Let_def split: if_splits option.splits)
  from find_first_split [OF fr] obtain pre post
    where c: "?c = pre @ r # post" and rm: "count_of h r = ?m"
      and before: "\<forall>q\<in>set pre. count_of h q \<noteq> ?m" by blast
  from filter_split_back [OF c] obtain pre' post'
    where ps: "?ps = pre' @ r # post'" and pre: "filter (is_open h) pre' = pre" by blast
  have "r \<in> set ?c" using c by simp
  then have openr: "is_open h r" by simp
  have least: "count_of h r \<le> count_of h q" if "q \<in> set ?ps" "is_open h q" for q
  proof -
    from that have "count_of h q \<in> set (map (count_of h) ?c)" by simp
    from min_list_le [OF this] rm show ?thesis by simp
  qed
  have strict: "count_of h r < count_of h q" if "q \<in> set pre'" "is_open h q" for q
  proof -
    from that pre have qp: "q \<in> set pre" by auto
    with before rm have "count_of h q \<noteq> count_of h r" by simp
    moreover from that ps have "count_of h r \<le> count_of h q" by (intro least) simp_all
    ultimately show ?thesis by simp
  qed
  from ps openr least strict show ?thesis by blast
qed

text \<open>
  C1. Provider selection for a tool returns a peer whose transport is open, whose
  request count is least among the providers of the tool with an open transport, and
  which comes first, in the order of the provider list (registration order), among those
  with that least count; it returns none exactly when no provider of the tool has an open
  transport, so a peer with a closed transport is never returned.
\<close>

theorem find_tool_provider_least_in_flight_first:
  "(case find_tool_provider h t of
      None \<Rightarrow> (\<forall>p\<in>set (providers_of h t). \<not> is_open h p)
    | Some r \<Rightarrow>
        (\<exists>pre post. providers_of h t = pre @ r # post
           \<and> is_open h r
           \<and> (\<forall>q\<in>set (providers_of h t). is_open h q \<longrightarrow> count_of h r \<le> count_of h q)
           \<and> (\<forall>q\<in>set pre. is_open h q \<longrightarrow> count_of h r < count_of h q)))"
proof (cases "find_tool_provider h t")
  case None
  then show ?thesis using find_tool_provider_None [of h t] by simp
next
  case (Some r)
  then show ?thesis using find_tool_provider_Some [of h t r] by simp
qed

text \<open>C1 on the sample hub: P1 and P2 both have the least count 2, and P1, registered
  first, is selected.\<close>

theorem find_tool_provider_scenario:
  "find_tool_provider echo_hub ''echo'' = Some ''P1''
   \<and> ''P2'' \<in> set (providers_of echo_hub ''echo'') \<and> is_open echo_hub ''P2''
   \<and> count_of echo_hub ''P1'' \<le> count_of echo_hub ''P2''
   \<and> (\<exists>pre post. providers_of echo_hub ''echo'' = pre @ ''P1'' # post
         \<and> is_open echo_hub ''P1''
         \<and> (\<forall>q\<in>set (providers_of echo_hub ''echo'').
               is_open echo_hub q \<longrightarrow> count_of echo_hub ''P1'' \<le> count_of echo_hub q)
         \<and> (\<forall>q\<in>set pre. is_open echo_hub q \<longrightarrow> count_of echo_hub ''P1'' < count_of echo_hub q))"
proof -
  have pick: "find_tool_provider echo_hub ''echo'' = Some ''P1''"
    by (simp add: sample_defs hub_defs)
  have p2: "''P2'' \<in> set (providers_of echo_hub ''echo'') \<and> is_open echo_hub ''P2''
      \<and> count_of echo_hub ''P1'' \<le> count_of echo_hub ''P2''"
    by (simp add: sample_defs hub_defs)
  from find_tool_provider_least_in_flight_first [of echo_hub "''echo''"] pick p2
  show ?thesis by simp
qed

section \<open>Request ids\<close>

lemma digit_code: "d < 10 \<Longrightarrow> (of_char (digit_char d) :: nat) = 48 + d"
proof -
  assume "d < 10"
  then have "d = 0 \<or> d = 1 \<or> d = 2 \<or> d = 3 \<or> d = 4 \<or> d = 5 \<or> d = 6
    \<or> d = 7 \<or> d = 8 \<or> d = 9" by arith
  then show ?thesis by (elim disjE) (simp_all add: digit_char_def)
qed

lemma nat_of_str_snoc: "nat_of_str (s @ [c]) = 10 * nat_of_str s + (of_char c - 48)"
  by (simp add: nat_of_str_def)

lemma nat_of_str_str_nat: "nat_of_str (str_nat n) = n"
proof (induction n rule: str_nat.induct)
  case (1 n)
  show ?case
  proof (cases "n < 10")
    case True
    then show ?thesis
      by (subst str_nat.simps) (simp add: nat_of_str_def digit_code)
  next
    case False
    have "n mod 10 < 10" by simp
    then have d: "(of_char (digit_char (n mod 10)) :: nat) = 48 + n mod 10" by (rule digit_code)
    from False have "str_nat n = str_nat (n div 10) @ [digit_char (n mod 10)]"
      by (subst str_nat.simps) simp
    then have "nat_of_str (str_nat n) = 10 * nat_of_str (str_nat (n div 10)) + n mod 10"
      by (simp add: nat_of_str_snoc d)
    with 1 False show ?thesis by simp
  qed
qed

lemma str_nat_inj: "str_nat m = str_nat n \<Longrightarrow> m = n"
  by (metis nat_of_str_str_nat)

section \<open>The pending-call table\<close>

lemma next_request_id_fresh: "hub_inv h \<Longrightarrow> next_request_id h \<notin> dom (pending_requests h)"
proof
  assume inv: "hub_inv h" and "next_request_id h \<in> dom (pending_requests h)"
  then obtain k where k: "k \<le> request_counter h" "next_request_id h = ''hub_'' @ str_nat k"
    unfolding hub_inv_def by blast
  then have "str_nat (request_counter h + 1) = str_nat k" by (simp add: next_request_id_def)
  then have "request_counter h + 1 = k" by (rule str_nat_inj)
  with k show False by simp
qed

lemma install_call_fst: "fst (install_call h p node src tmo now) = next_request_id h"
  by (simp add: install_call_def next_request_id_def Let_def)

lemma install_call_pending:
  "pending_requests (snd (install_call h p node src tmo now)) =
     (pending_requests h)(next_request_id h \<mapsto>
        \<lparr> request_id = next_request_id h,
          source_node = (case src of None \<Rightarrow> ''hub'' | Some s \<Rightarrow> if s \<noteq> [] then s else ''hub''),
          target_node = p, created_at = now, timeout = tmo \<rparr>)"
  by (simp add: install_call_def next_request_id_def Let_def)

lemma install_call_future:
  "futures (snd (install_call h p node src tmo now)) (next_request_id h) = Some FPending"
  by (simp add: install_call_def next_request_id_def Let_def)

lemma install_call_nodes:
  "nodes (snd (install_call h p node src tmo now)) =
     (nodes h)(p \<mapsto> node\<lparr> request_count := request_count node + 1 \<rparr>)"
  by (simp add: install_call_def Let_def)


lemma send_to_node_fst:
  "fst (send_to_node h p ok) = (is_open h p \<and> ok)"
  by (simp add: send_to_node_def is_open_def split: option.splits)

lemma send_to_node_keeps:
  "pending_requests (snd (send_to_node h p ok)) = pending_requests h"
  "futures (snd (send_to_node h p ok)) = futures h"
  "nodes (snd (send_to_node h p ok)) = nodes h"
  "request_counter (snd (send_to_node h p ok)) = request_counter h"
  "tool_providers (snd (send_to_node h p ok)) = tool_providers h"
  by (simp_all add: send_to_node_def split: option.splits)

lemma unregister_node_keeps:
  "pending_requests (unregister_node h sid) = pending_requests h"
  "futures (unregister_node h sid) = futures h"
  "request_counter (unregister_node h sid) = request_counter h"
  by (simp_all add: unregister_node_def split: option.splits)

lemma unregister_node_nodes: "nodes (unregister_node h sid) = (nodes h)(sid := None)"
  by (auto simp: unregister_node_def split: option.splits)

lemma connection_failed_keeps:
  "pending_requests (connection_failed h node e) = pending_requests h"
  "futures (connection_failed h node e) = futures h"
  "request_counter (connection_failed h node e) = request_counter h"
  by (simp_all add: connection_failed_def Let_def unregister_node_keeps split: option.splits)

lemma connection_failed_nodes:
  "nodes (connection_failed h (Some sid) e) = (nodes h)(sid := None)"
  by (simp add: connection_failed_def Let_def unregister_node_nodes)


lemma handle_response_unhashable:
  assumes "\<not> hashable i" "pending_requests g \<noteq> Map.empty"
  shows "handle_response g i r e = (Some TypeError, g)"
  using assms by (simp add: handle_response_def)

lemma resolve_pending_keeps:
  "nodes (snd (resolve_pending h rid pr r e)) = nodes h"
  "request_counter (snd (resolve_pending h rid pr r e)) = request_counter h"
  "tool_providers (snd (resolve_pending h rid pr r e)) = tool_providers h"
  by (simp_all add: resolve_pending_def set_result_def set_exception_def Let_def
      split: option.splits json.splits future.splits)

lemma handle_response_keeps:
  "nodes (snd (handle_response h i r e)) = nodes h"
  "request_counter (snd (handle_response h i r e)) = request_counter h"
  "tool_providers (snd (handle_response h i r e)) = tool_providers h"
  by (simp_all add: handle_response_def resolve_pending_keeps split: option.splits json.splits)

lemma handle_response_installed:
  assumes "pending_requests h rid = Some pr" "request_id pr = rid" "futures h rid = Some FPending"
  shows "fst (handle_response h (JStr rid) r e) =
           (if malformed_error (Reply r e) then Some AttributeError else None)"
    and "pending_requests (snd (handle_response h (JStr rid) r e)) = (pending_requests h)(rid := None)"
    and "futures (snd (handle_response h (JStr rid) r e)) rid = Some (response_future r e)"
  using assms
  by (cases e; simp add: handle_response_def resolve_pending_def set_result_def set_exception_def
      Let_def response_future_def malformed_error_def)+

lemma receive_response_installed:
  assumes "pending_requests h rid = Some pr" "request_id pr = rid" "futures h rid = Some FPending"
  shows "pending_requests (receive_response h (Some p) (JStr rid) r e) = (pending_requests h)(rid := None)"
    and "futures (receive_response h (Some p) (JStr rid) r e) rid = Some (response_future r e)"
    and "request_counter (receive_response h (Some p) (JStr rid) r e) = request_counter h"
    and "nodes (receive_response h (Some p) (JStr rid) r e) =
           (if malformed_error (Reply r e) then (nodes h)(p := None) else nodes h)"
proof -
  obtain x h1 where hr: "handle_response h (JStr rid) r e = (x, h1)" by (cases "handle_response h (JStr rid) r e")
  from handle_response_installed [OF assms, of r e] hr
  have x: "x = (if malformed_error (Reply r e) then Some AttributeError else None)"
    and p1: "pending_requests h1 = (pending_requests h)(rid := None)"
    and f1: "futures h1 rid = Some (response_future r e)" by simp_all
  from handle_response_keeps [of h "JStr rid" r e] hr
  have n1: "nodes h1 = nodes h" and c1: "request_counter h1 = request_counter h" by simp_all
  show "pending_requests (receive_response h (Some p) (JStr rid) r e) = (pending_requests h)(rid := None)"
    using p1 by (simp add: receive_response_def hr connection_failed_keeps split: option.splits)
  show "futures (receive_response h (Some p) (JStr rid) r e) rid = Some (response_future r e)"
    using f1 by (simp add: receive_response_def hr connection_failed_keeps split: option.splits)
  show "request_counter (receive_response h (Some p) (JStr rid) r e) = request_counter h"
    using c1 by (simp add: receive_response_def hr connection_failed_keeps split: option.splits)
  show "nodes (receive_response h (Some p) (JStr rid) r e) =
           (if malformed_error (Reply r e) then (nodes h)(p := None) else nodes h)"
    using n1 x by (simp add: receive_response_def hr connection_failed_nodes)
qed

lemma wait_for_pending:
  assumes "pending_requests h rid = Some pr" "request_id pr = rid" "futures h rid = Some FPending"
  shows "pending_requests (snd (wait_for h p rid tmo rep)) = (pending_requests h)(rid := None)"
proof (cases rep)
  case NoReply
  with assms show ?thesis by (simp add: wait_for_def Let_def)
next
  case (Reply r e)
  with receive_response_installed [OF assms, of p r e] show ?thesis
    by (simp add: wait_for_def Let_def split: future.splits)
qed

lemma wait_for_result:
  assumes "pending_requests h rid = Some pr" "request_id pr = rid" "futures h rid = Some FPending"
  shows "fst (wait_for h p rid tmo rep) = response_result tmo rep"
proof (cases rep)
  case NoReply
  with assms show ?thesis by (simp add: wait_for_def Let_def response_result_def timeout_text_def)
next
  case (Reply r e)
  with receive_response_installed(2) [OF assms, of p r e] show ?thesis
    by (cases e) (simp_all add: wait_for_def Let_def response_result_def response_future_def
        timeout_text_def)
qed



section \<open>Routing a tool call\<close>

lemma find_tool_provider_cong:
  assumes "tool_providers h' = tool_providers h"
    and "\<And>p. is_open h' p = is_open h p"
    and "\<And>p. count_of h' p = count_of h p"
  shows "find_tool_provider h' t = find_tool_provider h t"
proof -
  have o: "is_open h' = is_open h" and c: "count_of h' = count_of h" using assms by auto
  have p: "providers_of h' t = providers_of h t" using assms(1) by (simp add: providers_of_def)
  show ?thesis unfolding find_tool_provider_def o c p ..
qed

lemma is_open_in_nodes: "is_open h p \<Longrightarrow> p \<in> dom (nodes h)"
  by (auto simp: is_open_def split: option.splits)

lemma choose_provider_in_nodes:
  assumes "choose_provider h tool target = Some p"
  shows "p \<in> dom (nodes h)"
proof -
  have ftp: "find_tool_provider h tool = Some p \<Longrightarrow> p \<in> dom (nodes h)"
    using find_tool_provider_Some [of h tool p] is_open_in_nodes by blast
  from assms show ?thesis
    by (auto simp: choose_provider_def dest: ftp split: option.splits if_splits)
qed

lemma is_open_install:
  "is_open (snd (install_call h p node src tmo now)) p = (\<not> ws_closed node)"
  by (simp add: is_open_def install_call_nodes)

lemma route_tool_call_chosen:
  assumes "choose_provider h tool target = Some p" "p \<noteq> []" "nodes h p = Some node"
  shows "route_tool_call h tool src target tmo now send_ok rep =
     (let h2 = snd (send_to_node (snd (install_call h p node src tmo now)) p send_ok)
      in if \<not> (is_open h p \<and> send_ok)
         then (ErrorDict (''Failed to send to node: '' @ p),
               h2\<lparr> pending_requests := (pending_requests h2)(next_request_id h := None) \<rparr>)
         else wait_for h2 p (next_request_id h) tmo rep)"
  using assms
  by (simp add: route_tool_call_def Let_def case_prod_beta install_call_fst send_to_node_fst
      install_call_nodes is_open_def)

lemma route_tool_call_pending:
  assumes inv: "hub_inv h"
  shows "pending_requests (snd (route_tool_call h tool src target tmo now send_ok rep)) = pending_requests h"
proof (cases "choose_provider h tool target")
  case None
  then show ?thesis by (simp add: route_tool_call_def)
next
  case (Some p)
  show ?thesis
  proof (cases "p = []")
    case True
    with Some show ?thesis by (simp add: route_tool_call_def)
  next
    case False
    from choose_provider_in_nodes [OF Some] obtain node where node: "nodes h p = Some node" by auto
    let ?rid = "next_request_id h"
    let ?h1 = "snd (install_call h p node src tmo now)"
    let ?h2 = "snd (send_to_node ?h1 p send_ok)"
    from inv have fresh: "pending_requests h ?rid = None"
      using next_request_id_fresh [of h] by (simp add: domIff)
    let ?pr = "\<lparr> request_id = ?rid,
          source_node = (case src of None \<Rightarrow> ''hub'' | Some s \<Rightarrow> if s \<noteq> [] then s else ''hub''),
          target_node = p, created_at = now, timeout = tmo \<rparr>"
    have p2: "pending_requests ?h2 = (pending_requests h)(?rid \<mapsto> ?pr)"
      by (simp add: send_to_node_keeps install_call_pending)
    have e2: "pending_requests ?h2 ?rid = Some ?pr" by (simp add: p2)
    have r2: "request_id ?pr = ?rid" by simp
    have f2: "futures ?h2 ?rid = Some FPending"
      by (simp add: send_to_node_keeps install_call_future)
    have popped: "(pending_requests ?h2)(?rid := None) = pending_requests h"
      using fresh by (simp add: p2 fun_upd_idem)
    have "pending_requests (snd (wait_for ?h2 p ?rid tmo rep)) = (pending_requests ?h2)(?rid := None)"
      by (rule wait_for_pending [OF e2 r2 f2])
    with popped show ?thesis
      by (auto simp add: route_tool_call_chosen [OF Some False node] Let_def)
  qed
qed

lemma route_tool_call_result:
  assumes "choose_provider h tool target = Some p" "p \<noteq> []"
  shows "fst (route_tool_call h tool src target tmo now send_ok rep) =
     (if is_open h p \<and> send_ok then response_result tmo rep
      else ErrorDict (''Failed to send to node: '' @ p))"
proof -
  from choose_provider_in_nodes [OF assms(1)] obtain node where node: "nodes h p = Some node" by auto
  let ?rid = "next_request_id h"
  let ?h2 = "snd (send_to_node (snd (install_call h p node src tmo now)) p send_ok)"
  let ?pr = "\<lparr> request_id = ?rid,
          source_node = (case src of None \<Rightarrow> ''hub'' | Some s \<Rightarrow> if s \<noteq> [] then s else ''hub''),
          target_node = p, created_at = now, timeout = tmo \<rparr>"
  have e2: "pending_requests ?h2 ?rid = Some ?pr"
    by (simp add: send_to_node_keeps install_call_pending)
  have r2: "request_id ?pr = ?rid" by simp
  have f2: "futures ?h2 ?rid = Some FPending"
    by (simp add: send_to_node_keeps install_call_future)
  have "fst (wait_for ?h2 p ?rid tmo rep) = response_result tmo rep"
    by (rule wait_for_result [OF e2 r2 f2])
  then show ?thesis
    by (auto simp add: route_tool_call_chosen [OF assms node] Let_def)
qed




section \<open>Resolution of pending calls\<close>






section \<open>Request counts\<close>

lemma route_tool_call_not_chosen:
  assumes "choose_provider h tool target = None \<or> choose_provider h tool target = Some []"
  shows "route_tool_call h tool src target tmo now send_ok rep =
           (ErrorDict (''No provider found for tool: '' @ tool), h)"
  using assms by (auto simp: route_tool_call_def)







section \<open>Failures of a targeted call\<close>

text \<open>
  C8, as stated, fails: a call that names a target unknown to the hub returns the very
  error of a call without target for which no provider exists.
\<close>

theorem unknown_target_same_error_as_no_provider:
  "fst (route_tool_call echo_hub ''translate'' None (Some ''ghost'') 120 0 True NoReply)
     = ErrorDict ''No provider found for tool: translate''
   \<and> fst (route_tool_call echo_hub ''translate'' None None 120 0 True NoReply)
     = ErrorDict ''No provider found for tool: translate''"
  by (simp add: route_tool_call_def sample_defs hub_defs)

text \<open>
  C8, amended. A call that names a target missing from the node table fails with
  "No provider found for tool", the same error as a call without target when no open
  provider advertises the tool, and the hub is unchanged. A call that names a registered
  target whose websocket is closed fails with the different error "Failed to send to
  node". In none of the three cases is a pending-call entry left installed.
\<close>

theorem target_failures:
  "(t \<noteq> [] \<and> t \<notin> dom (nodes h) \<longrightarrow>
      route_tool_call h tool src (Some t) tmo now send_ok rep =
        (ErrorDict (''No provider found for tool: '' @ tool), h))
   \<and> (find_tool_provider h tool = None \<longrightarrow>
      route_tool_call h tool src None tmo now send_ok rep =
        (ErrorDict (''No provider found for tool: '' @ tool), h))
   \<and> (hub_inv h \<and> t \<noteq> [] \<and> t \<in> dom (nodes h) \<and> \<not> is_open h t \<longrightarrow>
      fst (route_tool_call h tool src (Some t) tmo now send_ok rep) =
        ErrorDict (''Failed to send to node: '' @ t)
      \<and> pending_requests (snd (route_tool_call h tool src (Some t) tmo now send_ok rep)) =
        pending_requests h)"
proof -
  have a: "t \<noteq> [] \<and> t \<notin> dom (nodes h) \<longrightarrow>
      route_tool_call h tool src (Some t) tmo now send_ok rep =
        (ErrorDict (''No provider found for tool: '' @ tool), h)"
    by (simp add: route_tool_call_not_chosen choose_provider_def)
  have b: "find_tool_provider h tool = None \<longrightarrow>
      route_tool_call h tool src None tmo now send_ok rep =
        (ErrorDict (''No provider found for tool: '' @ tool), h)"
    by (simp add: route_tool_call_not_chosen choose_provider_def)
  have c: "fst (route_tool_call h tool src (Some t) tmo now send_ok rep) =
        ErrorDict (''Failed to send to node: '' @ t)
      \<and> pending_requests (snd (route_tool_call h tool src (Some t) tmo now send_ok rep)) =
        pending_requests h"
    if "hub_inv h" "t \<noteq> []" "t \<in> dom (nodes h)" "\<not> is_open h t"
  proof -
    from that have ch: "choose_provider h tool (Some t) = Some t" by (simp add: choose_provider_def)
    from route_tool_call_result [OF ch that(2)] that(4)
    have "fst (route_tool_call h tool src (Some t) tmo now send_ok rep) =
        ErrorDict (''Failed to send to node: '' @ t)" by simp
    with route_tool_call_pending [OF that(1)] show ?thesis by simp
  qed
  from a b c show ?thesis by blast
qed

text \<open>C8 amended, on the sample hub where P2 is closed and \<open>ghost\<close> is unknown.\<close>

theorem target_failures_half_open_hub:
  "''ghost'' \<noteq> [] \<and> ''ghost'' \<notin> dom (nodes half_open_hub)
   \<and> route_tool_call half_open_hub ''echo'' None (Some ''ghost'') 120 0 True NoReply
       = (ErrorDict ''No provider found for tool: echo'', half_open_hub)
   \<and> find_tool_provider half_open_hub ''translate'' = None
   \<and> route_tool_call half_open_hub ''translate'' None None 120 0 True NoReply
       = (ErrorDict ''No provider found for tool: translate'', half_open_hub)
   \<and> hub_inv half_open_hub \<and> ''P2'' \<in> dom (nodes half_open_hub) \<and> \<not> is_open half_open_hub ''P2''
   \<and> fst (route_tool_call half_open_hub ''echo'' None (Some ''P2'') 120 0 True NoReply)
       = ErrorDict ''Failed to send to node: P2''
   \<and> pending_requests (snd (route_tool_call half_open_hub ''echo'' None (Some ''P2'') 120 0 True NoReply))
       = pending_requests half_open_hub"
proof -
  have g: "''ghost'' \<notin> dom (nodes half_open_hub)" by (simp add: sample_defs)
  have f: "find_tool_provider half_open_hub ''translate'' = None" by (simp add: sample_defs hub_defs)
  have i: "hub_inv half_open_hub" by (simp add: hub_inv_def sample_defs)
  have p: "''P2'' \<in> dom (nodes half_open_hub)" by (simp add: sample_defs)
  have c: "\<not> is_open half_open_hub ''P2''" by (simp add: sample_defs hub_defs)
  from target_failures [of "''ghost''" half_open_hub "''echo''" None 120 0 True NoReply]
    target_failures [of "''P2''" half_open_hub "''translate''" None 120 0 True NoReply]
    target_failures [of "''P2''" half_open_hub "''echo''" None 120 0 True NoReply]
    g f i p c
  show ?thesis by simp
qed

section \<open>Pings and selection\<close>

text \<open>
  C7, as stated, fails: P4 registered at time 0 and never pinged; it is still the
  provider selected for \<open>echo\<close>, and a call routed at time 91 reaches it.
\<close>

theorem silent_peer_still_selected:
  "map_option last_ping (nodes silent_hub ''P4'') = Some 0
   \<and> find_tool_provider silent_hub ''echo'' = Some ''P4''
   \<and> fst (route_tool_call silent_hub ''echo'' None None 120 91 True (Reply (JStr ''pong'') JNull))
       = Returned (JStr ''pong'')"
  by (simp add: route_tool_call_result [where p = "''P4''"] sample_defs hub_defs response_result_def)

text \<open>
  C7, amended. The hub keeps no Degraded or Offline state: a ping from a registered
  node sets that node's \<open>last_ping\<close> and nothing else, and provider selection does not
  read \<open>last_ping\<close>, so neither silence of any length nor a ping changes which peer is
  selected.
\<close>

theorem selection_ignores_last_ping:
  "find_tool_provider (with_last_ping f h) t = find_tool_provider h t
   \<and> find_tool_provider (handle_ping h node now) t = find_tool_provider h t
   \<and> nodes (handle_ping h node now) p =
        (if node = Some p then map_option (\<lambda>n. n\<lparr> last_ping := now \<rparr>) (nodes h p) else nodes h p)
   \<and> tool_providers (handle_ping h node now) = tool_providers h"
proof -
  have a: "find_tool_provider (with_last_ping f h) t = find_tool_provider h t"
    by (rule find_tool_provider_cong)
      (simp_all add: with_last_ping_def is_open_def count_of_def split: option.splits)
  have b: "find_tool_provider (handle_ping h node now) t = find_tool_provider h t"
    by (rule find_tool_provider_cong)
      (simp_all add: handle_ping_def is_open_def count_of_def split: option.splits)
  have c: "nodes (handle_ping h node now) p =
        (if node = Some p then map_option (\<lambda>n. n\<lparr> last_ping := now \<rparr>) (nodes h p) else nodes h p)"
    by (auto simp: handle_ping_def split: option.splits)
  have d: "tool_providers (handle_ping h node now) = tool_providers h"
    by (simp add: handle_ping_def split: option.splits)
  from a b c d show ?thesis by blast
qed

section \<open>Advertising a new tool list\<close>

text \<open>
  C6 at a failing input. Node n1 registered with \<open>echo\<close> and \<open>sum\<close> and then sent
  \<open>tools/list\<close> with \<open>echo\<close> alone: its own tool list is replaced, but the index still
  lists n1 as provider of \<open>sum\<close>, and selection for \<open>sum\<close> returns n1.
\<close>

theorem tools_list_keeps_dropped_tool:
  "map_option tools (nodes two_tool_hub ''n1'') = Some [''echo'', ''sum'']
   \<and> map_option tools (nodes dropped_tool_hub ''n1'') = Some [''echo'']
   \<and> providers_of dropped_tool_hub ''sum'' = [''n1'']
   \<and> find_tool_provider dropped_tool_hub ''sum'' = Some ''n1''"
  by (simp add: sample_defs hub_defs)

section \<open>Vault verification and registration\<close>

lemmas vault_defs = restricted_vault_def revoked_vault_def empty_vault_def vault_register_node_def
  verify_token_def revoke_node_def save_def sample_digest_def Let_def

text \<open>
  C3, as stated, fails: nodeA is restricted to one address, yet a call that passes no
  \<open>client_ip\<close> (as the callers in this repository do) returns true.
\<close>

theorem verify_token_skips_ip_check_without_client_ip:
  "fst (verify_token sample_digest restricted_vault ''nodeA'' ''T'' None ''2026-01-03T00:00:00'' IoOk)
   \<and> map_option allowed_ips (vault_nodes restricted_vault ''nodeA'') = Some [''10.0.0.5'']"
  by (simp add: vault_defs)

lemma save_vault_nodes: "vault_nodes (save w now io) = vault_nodes w"
  by (cases io) (simp_all add: save_def)

lemma save_tokens_file: "tokens_file (save w now IoOk) = Saved (vault_nodes w) now"
  by (simp add: save_def)

text \<open>
  C3, amended. \<open>verify_token\<close> returns true only if the stored record of the node
  exists, is active, its \<open>token_hash\<close> is the digest of the token, and the address check
  passes or is skipped: \<open>allowed_ips\<close> is empty, or no (or an empty) \<open>client_ip\<close> was
  given, or \<open>client_ip\<close> is in \<open>allowed_ips\<close>. On a true result \<open>last_seen\<close> is set
  to the current time and the vault is saved (the tokens file then holds the new table
  when the write succeeds); on a false result the vault is unchanged.
\<close>

theorem verify_token_sound:
  "(fst (verify_token sha256 v nid token client_ip now io) \<longrightarrow>
      (\<exists>node. vault_nodes v nid = Some node \<and> active node \<and> token_hash node = sha256 token
         \<and> (allowed_ips node = [] \<or> client_ip = None \<or> client_ip = Some []
              \<or> (\<exists>ip. client_ip = Some ip \<and> ip \<in> set (allowed_ips node)))
         \<and> snd (verify_token sha256 v nid token client_ip now io) =
              save (v\<lparr> vault_nodes := (vault_nodes v)(nid \<mapsto> node\<lparr> last_seen := Some now \<rparr>) \<rparr>) now io
         \<and> vault_nodes (snd (verify_token sha256 v nid token client_ip now io)) nid =
              Some (node\<lparr> last_seen := Some now \<rparr>)
         \<and> (io = IoOk \<longrightarrow> tokens_file (snd (verify_token sha256 v nid token client_ip now io)) =
              Saved (vault_nodes (snd (verify_token sha256 v nid token client_ip now io))) now)))
   \<and> (\<not> fst (verify_token sha256 v nid token client_ip now io) \<longrightarrow>
        snd (verify_token sha256 v nid token client_ip now io) = v)"
proof (cases "vault_nodes v nid")
  case None
  then show ?thesis by (simp add: verify_token_def)
next
  case (Some node)
  note keep = save_vault_nodes and saved = save_tokens_file
  show ?thesis
  proof (cases "fst (verify_token sha256 v nid token client_ip now io)")
    case False
    with Some show ?thesis by (auto simp: verify_token_def split: if_splits)
  next
    case True
    with Some have ok: "active node" "token_hash node = sha256 token"
      "allowed_ips node = [] \<or> client_ip = None \<or> client_ip = Some []
         \<or> (\<exists>ip. client_ip = Some ip \<and> ip \<in> set (allowed_ips node))"
      and st: "snd (verify_token sha256 v nid token client_ip now io) =
        save (v\<lparr> vault_nodes := (vault_nodes v)(nid \<mapsto> node\<lparr> last_seen := Some now \<rparr>) \<rparr>) now io"
      by (auto simp: verify_token_def split: if_splits)
    from True Some ok st show ?thesis by (auto simp: keep saved)
  qed
qed

text \<open>C3 amended, on the sample vault: accepted from the allowed address with
  \<open>last_seen\<close> set, refused from another address with the vault unchanged.\<close>

theorem verify_token_restricted_vault:
  "fst (verify_token sample_digest restricted_vault ''nodeA'' ''T'' (Some ''10.0.0.5'')
          ''2026-01-03T00:00:00'' IoOk)
   \<and> map_option last_seen (vault_nodes (snd (verify_token sample_digest restricted_vault ''nodeA'' ''T''
          (Some ''10.0.0.5'') ''2026-01-03T00:00:00'' IoOk)) ''nodeA'') = Some (Some ''2026-01-03T00:00:00'')
   \<and> \<not> fst (verify_token sample_digest restricted_vault ''nodeA'' ''T'' (Some ''10.0.0.9'')
          ''2026-01-03T00:00:00'' IoOk)
   \<and> snd (verify_token sample_digest restricted_vault ''nodeA'' ''T'' (Some ''10.0.0.9'')
          ''2026-01-03T00:00:00'' IoOk) = restricted_vault"
proof -
  have t: "fst (verify_token sample_digest restricted_vault ''nodeA'' ''T'' (Some ''10.0.0.5'')
          ''2026-01-03T00:00:00'' IoOk)"
    by (simp add: vault_defs)
  have f: "\<not> fst (verify_token sample_digest restricted_vault ''nodeA'' ''T'' (Some ''10.0.0.9'')
          ''2026-01-03T00:00:00'' IoOk)"
    by (simp add: vault_defs)
  from verify_token_sound [of sample_digest restricted_vault "''nodeA''" "''T''" "Some ''10.0.0.5''"
      "''2026-01-03T00:00:00''" IoOk]
    verify_token_sound [of sample_digest restricted_vault "''nodeA''" "''T''" "Some ''10.0.0.9''"
      "''2026-01-03T00:00:00''" IoOk] t f
  show ?thesis by auto
qed

text \<open>
  C4 at a failing input. nodeA is registered and revoked; registering nodeA again does
  not fail: it returns the new token, replaces the stored digest and makes the node
  active again.
\<close>

theorem register_node_overwrites_revoked_node:
  "map_option active (vault_nodes revoked_vault ''nodeA'') = Some False
   \<and> map_option token_hash (vault_nodes revoked_vault ''nodeA'') = Some (sample_digest ''T'')
   \<and> fst (vault_register_node sample_digest revoked_vault ''nodeA'' ''node'' None ''T2''
             ''2026-01-04T00:00:00'' IoOk) = ''T2''
   \<and> map_option token_hash (vault_nodes (snd (vault_register_node sample_digest revoked_vault ''nodeA''
             ''node'' None ''T2'' ''2026-01-04T00:00:00'' IoOk)) ''nodeA'') = Some (sample_digest ''T2'')
   \<and> map_option active (vault_nodes (snd (vault_register_node sample_digest revoked_vault ''nodeA''
             ''node'' None ''T2'' ''2026-01-04T00:00:00'' IoOk)) ''nodeA'') = Some True"
  by (simp add: vault_defs)

text \<open>What does hold: the tool handler refuses a known node id, and registration stores
  the node under the digest of the token and nothing else of it.\<close>

lemma federation_register_conflict:
  "n \<noteq> [] \<Longrightarrow> vault_nodes v n \<noteq> None \<Longrightarrow>
   federation_register sha256 v (Some n) rl token now io =
     (ToolError (''Node '' @ n @ '' already registered''), v)"
  by (simp add: federation_register_def)

lemma vault_register_node_stores_digest_only:
  "sha256 t1 = sha256 t2 \<Longrightarrow>
   snd (vault_register_node sha256 v nid rl ips t1 now io) =
   snd (vault_register_node sha256 v nid rl ips t2 now io)"
  by (simp add: vault_register_node_def Let_def)

lemma vault_register_node_new:
  "fst (vault_register_node sha256 v nid rl ips token now io) = token
   \<and> vault_nodes (snd (vault_register_node sha256 v nid rl ips token now io)) =
       (vault_nodes v)(nid \<mapsto> \<lparr> node_id = nid, token_hash = sha256 token, role = rl,
           allowed_ips = (case ips of None \<Rightarrow> [] | Some l \<Rightarrow> l),
           registered_at = now, last_seen = None, active = True \<rparr>)"
  by (cases io) (simp_all add: vault_register_node_def save_def Let_def)

section \<open>The replay window of signed requests\<close>

lemmas envelope_defs = verify_signed_request_def create_signed_request_def sample_hmac_def
  int_of_digits_def nat_of_str_def str_int_def str_nat.simps digit_char_def Let_def

text \<open>
  C5, as stated, fails: a request signed at time 1000 and verified at time 1300 with the
  default window of 300 seconds is accepted.
\<close>

theorem signed_request_accepted_at_exact_window:
  "verify_signed_request sample_hmac id int_of_digits ''psk''
     (create_signed_request sample_hmac id str_int ''psk'' ''{}'' None 1000) None 300 1300
   = Some ''{}''"
  by (simp add: envelope_defs)

text \<open>
  C5, amended. A request signed at \<open>t0\<close> and verified at \<open>now\<close> under the same key is
  accepted exactly when \<open>|now - t0| \<le> max_age\<close>: it is accepted when the difference is
  the window or the window minus one, and rejected from the window plus one on.
\<close>

theorem signed_request_window:
  assumes "py_int (str_of t0) = Some t0"
  shows "verify_signed_request hmac_hex dumps py_int psk
           (create_signed_request hmac_hex dumps str_of psk d secret t0) secret max_age now
         = (if \<bar>now - t0\<bar> \<le> max_age then Some d else None)"
  using assms by (simp add: verify_signed_request_def create_signed_request_def Let_def)

text \<open>C5 amended, for the default window: accepted 300 and 299 seconds later and 299
  seconds earlier, rejected 301 seconds later.\<close>

theorem signed_request_window_300:
  "int_of_digits (str_int 1000) = Some 1000
   \<and> verify_signed_request sample_hmac id int_of_digits ''psk''
       (create_signed_request sample_hmac id str_int ''psk'' ''{}'' None 1000) None 300 1300 = Some ''{}''
   \<and> verify_signed_request sample_hmac id int_of_digits ''psk''
       (create_signed_request sample_hmac id str_int ''psk'' ''{}'' None 1000) None 300 1299 = Some ''{}''
   \<and> verify_signed_request sample_hmac id int_of_digits ''psk''
       (create_signed_request sample_hmac id str_int ''psk'' ''{}'' None 1000) None 300 701 = Some ''{}''
   \<and> verify_signed_request sample_hmac id int_of_digits ''psk''
       (create_signed_request sample_hmac id str_int ''psk'' ''{}'' None 1000) None 300 1301 = None"
proof -
  have p: "int_of_digits (str_int 1000) = Some 1000" by (simp add: envelope_defs)
  from signed_request_window [of int_of_digits str_int 1000 sample_hmac id "''psk''" "''{}''" None 300 1300, OF p]
    signed_request_window [of int_of_digits str_int 1000 sample_hmac id "''psk''" "''{}''" None 300 1299, OF p]
    signed_request_window [of int_of_digits str_int 1000 sample_hmac id "''psk''" "''{}''" None 300 701, OF p]
    signed_request_window [of int_of_digits str_int 1000 sample_hmac id "''psk''" "''{}''" None 300 1301, OF p]
    p
  show ?thesis by simp
qed

section \<open>Merging gossip\<close>

lemmas gossip_defs = handle_gossip_def gossip_step_def peer_info_of_def gossip_node_def gossip_about_def Let_def

lemma gossip_step_skip:
  "\<not> admissible self ps r \<Longrightarrow> gossip_step self ps now acc r = acc"
  by (cases "g_peer_id r") (auto simp: gossip_step_def admissible_def)

lemma gossip_step_store:
  "admissible self ps r \<Longrightarrow>
   gossip_step self ps now (m, a) r =
     (m(the (g_peer_id r) \<mapsto> peer_info_of now (the (g_peer_id r)) r), a + 1)"
  by (cases "g_peer_id r") (auto simp: gossip_step_def admissible_def)

lemma gossip_fold_add:
  "fst (foldl (gossip_step self ps now) (m, a) rs) =
     m ++ fst (foldl (gossip_step self ps now) (Map.empty, b) rs)"
proof (induction rs arbitrary: m a b)
  case Nil
  then show ?case by simp
next
  case (Cons r rs)
  let ?X = "fst (foldl (gossip_step self ps now) (Map.empty, 0) rs)"
  show ?case
  proof (cases "admissible self ps r")
    case False
    then have "gossip_step self ps now (m, a) r = (m, a)"
      "gossip_step self ps now (Map.empty, b) r = (Map.empty, b)"
      by (rule gossip_step_skip)+
    then show ?thesis using Cons.IH [of m a b] by (simp only: foldl_Cons)
  next
    case True
    let ?pid = "the (g_peer_id r)"
    let ?i = "peer_info_of now ?pid r"
    have "foldl (gossip_step self ps now) (m, a) (r # rs) =
        foldl (gossip_step self ps now) (m(?pid \<mapsto> ?i), a + 1) rs"
      by (simp only: foldl_Cons gossip_step_store [OF True])
    then have l: "fst (foldl (gossip_step self ps now) (m, a) (r # rs)) = m(?pid \<mapsto> ?i) ++ ?X"
      by (simp only: Cons.IH [of "m(?pid \<mapsto> ?i)" "a + 1" 0])
    have "foldl (gossip_step self ps now) (Map.empty, b) (r # rs) =
        foldl (gossip_step self ps now) ([?pid \<mapsto> ?i], b + 1) rs"
      by (simp only: foldl_Cons gossip_step_store [OF True])
    then have r: "fst (foldl (gossip_step self ps now) (Map.empty, b) (r # rs)) = [?pid \<mapsto> ?i] ++ ?X"
      by (simp only: Cons.IH [of "[?pid \<mapsto> ?i]" "b + 1" 0])
    have "m(?pid \<mapsto> ?i) ++ ?X = m ++ ([?pid \<mapsto> ?i] ++ ?X)"
      by (simp add: map_add_assoc [symmetric])
    with l r show ?thesis by (simp only:)
  qed
qed

lemma map_add_twice: "(m ++ x) ++ x = m ++ (x :: 'a \<rightharpoonup> 'b)"
  by (rule ext) (simp add: map_add_def split: option.splits)

lemma handle_gossip_state:
  "snd (handle_gossip n rs now) =
     n\<lparr> known_peers := fst (foldl (gossip_step (own_id n) (peers n) now) (known_peers n, 0) rs) \<rparr>"
  by (simp add: handle_gossip_def case_prod_beta)

lemma handle_gossip_idem:
  "snd (handle_gossip (snd (handle_gossip n rs now)) rs now) = snd (handle_gossip n rs now)"
proof -
  let ?X = "fst (foldl (gossip_step (own_id n) (peers n) now) (Map.empty, 0) rs)"
  have one: "fst (foldl (gossip_step (own_id n) (peers n) now) (known_peers n, 0) rs) = known_peers n ++ ?X"
    by (rule gossip_fold_add)
  have two: "fst (foldl (gossip_step (own_id n) (peers n) now) (known_peers n ++ ?X, 0) rs)
      = (known_peers n ++ ?X) ++ ?X"
    by (rule gossip_fold_add)
  show ?thesis by (simp add: handle_gossip_state one two map_add_twice)
qed

lemma peer_info_of_clock:
  "g_last_seen r = Some t \<Longrightarrow> peer_info_of now' pid r = peer_info_of now pid r"
  by (simp add: peer_info_of_def)

lemma gossip_step_clock:
  "g_last_seen r = Some t \<Longrightarrow> gossip_step self ps now' acc r = gossip_step self ps now acc r"
  by (cases "g_peer_id r") (simp_all add: gossip_step_def peer_info_of_clock [of r t now' _ now])

lemma gossip_fold_clock:
  "\<forall>r\<in>set rs. g_last_seen r \<noteq> None \<Longrightarrow>
   foldl (gossip_step self ps now') acc rs = foldl (gossip_step self ps now) acc rs"
proof (induction rs arbitrary: acc)
  case Nil
  then show ?case by simp
next
  case (Cons r rs)
  from Cons.prems obtain t where "g_last_seen r = Some t" by auto
  then have "gossip_step self ps now' acc r = gossip_step self ps now acc r"
    by (rule gossip_step_clock)
  moreover from Cons.prems have "\<forall>r\<in>set rs. g_last_seen r \<noteq> None" by simp
  ultimately show ?case using Cons.IH by (simp only: foldl_Cons)
qed

lemma handle_gossip_clock:
  assumes "\<forall>r\<in>set rs. g_last_seen r \<noteq> None"
  shows "handle_gossip n rs now' = handle_gossip n rs now"
proof -
  have "foldl (gossip_step (own_id n) (peers n) now') (known_peers n, 0) rs =
      foldl (gossip_step (own_id n) (peers n) now) (known_peers n, 0) rs"
    using assms by (rule gossip_fold_clock)
  then show ?thesis by (simp only: handle_gossip_def)
qed

lemmas gossip_eval = handle_gossip_state gossip_step_def peer_info_of_def gossip_node_def
  gossip_about_def

lemma later_order: "max ''2026-01-02T00:00:00'' ''2026-01-01T00:00:00'' = ''2026-01-02T00:00:00''"
  by (simp add: max_def)

text \<open>
  C9, as stated, fails: p9 is known with \<open>last_seen\<close> of 2 January; a record for p9 with
  \<open>last_seen\<close> of 1 January replaces it, so the stored value is not the maximum.
\<close>

theorem gossip_overwrites_newer_last_seen:
  "map_option peer_last_seen
     (known_peers (snd (handle_gossip gossip_node [gossip_about ''p9'' (Some ''2026-01-02T00:00:00'')]
        ''2026-01-03T00:00:00'')) ''p9'') = Some ''2026-01-02T00:00:00''
   \<and> map_option peer_last_seen
     (known_peers (snd (handle_gossip
        (snd (handle_gossip gossip_node [gossip_about ''p9'' (Some ''2026-01-02T00:00:00'')]
           ''2026-01-03T00:00:00''))
        [gossip_about ''p9'' (Some ''2026-01-01T00:00:00'')] ''2026-01-03T00:00:00'')) ''p9'')
     = Some ''2026-01-01T00:00:00''
   \<and> max ''2026-01-02T00:00:00'' ''2026-01-01T00:00:00'' = ''2026-01-02T00:00:00''"
  by (simp add: gossip_eval later_order)

text \<open>
  C9, amended. Merging the same gossip records twice gives the state that merging them
  once gives, when both merges read the same clock or every record carries its
  \<open>last_seen\<close>. A record that passes the guard replaces the entry of its peer id: the
  stored \<open>last_seen\<close> is the received one (or the current time if the record has none),
  whatever was stored before. A record that fails the guard changes nothing.
\<close>

theorem gossip_merge_idempotent_last_writer_wins:
  "snd (handle_gossip (snd (handle_gossip n rs now)) rs now) = snd (handle_gossip n rs now)
   \<and> ((\<forall>r\<in>set rs. g_last_seen r \<noteq> None) \<longrightarrow>
        snd (handle_gossip (snd (handle_gossip n rs now)) rs now') = snd (handle_gossip n rs now))
   \<and> (admissible (own_id n) (peers n) r \<longrightarrow>
        known_peers (snd (handle_gossip n [r] now)) (the (g_peer_id r)) =
          Some (peer_info_of now (the (g_peer_id r)) r)
        \<and> peer_last_seen (peer_info_of now (the (g_peer_id r)) r) =
          (case g_last_seen r of None \<Rightarrow> now | Some t \<Rightarrow> t))
   \<and> (\<not> admissible (own_id n) (peers n) r \<longrightarrow> snd (handle_gossip n [r] now) = n)"
proof -
  have a: "snd (handle_gossip (snd (handle_gossip n rs now)) rs now) = snd (handle_gossip n rs now)"
    by (rule handle_gossip_idem)
  have b: "snd (handle_gossip (snd (handle_gossip n rs now)) rs now') = snd (handle_gossip n rs now)"
    if h: "\<forall>r\<in>set rs. g_last_seen r \<noteq> None"
  proof -
    have "handle_gossip (snd (handle_gossip n rs now)) rs now' =
        handle_gossip (snd (handle_gossip n rs now)) rs now"
      using h by (rule handle_gossip_clock)
    with a show ?thesis by (simp only:)
  qed
  have c: "known_peers (snd (handle_gossip n [r] now)) (the (g_peer_id r)) =
          Some (peer_info_of now (the (g_peer_id r)) r)
        \<and> peer_last_seen (peer_info_of now (the (g_peer_id r)) r) =
          (case g_last_seen r of None \<Rightarrow> now | Some t \<Rightarrow> t)"
    if "admissible (own_id n) (peers n) r"
    using that by (simp add: handle_gossip_state gossip_step_store peer_info_of_def)
  have d: "snd (handle_gossip n [r] now) = n" if "\<not> admissible (own_id n) (peers n) r"
    using that by (simp add: handle_gossip_state gossip_step_skip)
  from a b c d show ?thesis by blast
qed

text \<open>C9 amended, on the sample node.\<close>

theorem gossip_merge_sample:
  "g_last_seen (gossip_about ''p9'' (Some ''2026-01-02T00:00:00'')) = Some ''2026-01-02T00:00:00''
   \<and> snd (handle_gossip (snd (handle_gossip gossip_node
          [gossip_about ''p9'' (Some ''2026-01-02T00:00:00'')] ''t1''))
          [gossip_about ''p9'' (Some ''2026-01-02T00:00:00'')] ''t2'')
     = snd (handle_gossip gossip_node [gossip_about ''p9'' (Some ''2026-01-02T00:00:00'')] ''t1'')
   \<and> admissible (own_id gossip_node) (peers gossip_node) (gossip_about ''p9'' (Some ''2026-01-01T00:00:00''))
   \<and> map_option peer_last_seen (known_peers (snd (handle_gossip gossip_node
          [gossip_about ''p9'' (Some ''2026-01-01T00:00:00'')] ''t1'')) ''p9'') = Some ''2026-01-01T00:00:00''
   \<and> \<not> admissible (own_id gossip_node) (peers gossip_node) (gossip_about ''p1'' None)
   \<and> snd (handle_gossip gossip_node [gossip_about ''p1'' None] ''t1'') = gossip_node"
proof -
  have h: "\<forall>r\<in>set [gossip_about ''p9'' (Some ''2026-01-02T00:00:00'')]. g_last_seen r \<noteq> None"
    by (simp add: gossip_about_def)
  have a: "admissible (own_id gossip_node) (peers gossip_node)
      (gossip_about ''p9'' (Some ''2026-01-01T00:00:00''))"
    by (simp add: admissible_def gossip_node_def gossip_about_def)
  have n: "\<not> admissible (own_id gossip_node) (peers gossip_node) (gossip_about ''p1'' None)"
    by (simp add: admissible_def gossip_node_def gossip_about_def)
  have p: "the (g_peer_id (gossip_about ''p9'' (Some ''2026-01-01T00:00:00''))) = ''p9''"
    "g_last_seen (gossip_about ''p9'' (Some ''2026-01-01T00:00:00'')) = Some ''2026-01-01T00:00:00''"
    by (simp_all add: gossip_about_def)
  from gossip_merge_idempotent_last_writer_wins [of gossip_node
      "[gossip_about ''p9'' (Some ''2026-01-02T00:00:00'')]" "''t1''" "''t2''"
      "gossip_about ''p9'' (Some ''2026-01-01T00:00:00'')"]
    gossip_merge_idempotent_last_writer_wins [of gossip_node
      "[gossip_about ''p9'' (Some ''2026-01-02T00:00:00'')]" "''t1''" "''t2''"
      "gossip_about ''p1'' None"]
    h a n p
  show ?thesis by (simp add: gossip_about_def)
qed

end
